theory Spec2Isabelle
  imports Complex_Main
begin

section \<open>Data model\<close>

text \<open>
  The order discount engine of the voucher API: \<open>src/orders/orders.service.ts\<close> and
  \<open>orders.controller.ts\<close> (both in \<open>src/unnamed/part_005\<close>),
  \<open>src/vouchers/vouchers.service.ts\<close> and \<open>src/promotions/promotions.service.ts\<close>.

  Numbers. The services compute on JavaScript \<open>number\<close>s obtained by \<open>Number(decimal)\<close>.
  They are modelled as exact rationals (\<open>rat\<close>): sums, products, comparisons and
  \<open>Math.min\<close> are the exact ones. Integer columns (\<open>usageLimit\<close>, \<open>currentUsage\<close>,
  \<open>version\<close>, \<open>quantity\<close>) are \<open>int\<close>; the range of the SQL \<open>INTEGER\<close> column is not
  modelled. Instants (\<open>Date\<close>) are the integer count of milliseconds, and the clock read by
  \<open>new Date()\<close> is the parameter \<open>now\<close>.
\<close>

datatype DiscountType = PERCENTAGE | FIXED

datatype OrderStatus = PENDING | CONFIRMED | CANCELLED

text \<open>The column \<open>OrderDiscount.discountType\<close> holds the text \<open>VOUCHER\<close> or \<open>PROMOTION\<close>.\<close>

datatype DiscountKind = VOUCHER | PROMOTION

text \<open>
  The columns shared by the tables \<open>Voucher\<close> and \<open>Promotion\<close>; each table extends them.
  The column \<open>id\<close> is \<open>ruleId\<close> here and \<open>orderId\<close> in an order.
\<close>

record rule =
  ruleId :: string
  code :: string
  discountType :: DiscountType
  discountValue :: rat
  expirationDate :: int
  usageLimit :: int
  currentUsage :: int
  isActive :: bool
  version :: int
  deletedAt :: "int option"

record voucher = rule +
  minOrderValue :: "rat option"

record promotion = rule +
  eligibleCategories :: "string list"
  eligibleItems :: "string list"

record orderItem =
  productId :: string
  productName :: string
  category :: string
  unitPrice :: rat
  quantity :: int
  lineTotal :: rat

text \<open>
  An order carries its items (they are written once, by \<open>create\<close>). The rows of
  \<open>OrderDiscount\<close> are a table of their own; a row is identified by the unique index on
  \<open>(orderId, discountCode)\<close>, its surrogate key is not modelled.
\<close>

record order =
  orderId :: string
  customerId :: string
  subtotal :: rat
  totalDiscount :: rat
  finalTotal :: rat
  status :: OrderStatus
  items :: "orderItem list"

record orderDiscount =
  d_orderId :: string
  d_discountType :: DiscountKind
  discountCode :: string
  discountAmount :: rat

text \<open>
  The exceptions the services raise, one constructor for each failure. The last ones are
  the errors of the Prisma client: \<open>P2002\<close> is the violation of the unique index by
  \<open>orderDiscount.create\<close>, \<open>P2003\<close> that of its foreign key to the order, and \<open>P2025\<close>
  the failure of an \<open>update\<close> or \<open>delete\<close> to find its row. \<open>AppliedDiscountNotFound\<close> is
  the plain \<open>Error\<close> of the controller.
\<close>

datatype error =
    OrderNotFound
  | NotPendingApply
  | NotPendingRemove
  | AlreadyApplied
  | VoucherNotFound
  | VoucherNotActive
  | VoucherExpired
  | VoucherUsageLimitReached
  | BelowMinOrderValue
  | VoucherVersionConflict
  | VoucherCodeUpdate
  | VoucherPercentageAbove100
  | VoucherExpirationNotFuture
  | VoucherUpdateConflict
  | VoucherUsed
  | PromotionNotFound
  | PromotionNotActive
  | PromotionExpired
  | PromotionUsageLimitReached
  | PromotionVersionConflict
  | PromotionUsed
  | NoEligibleItems
  | DiscountCapReached
  | DiscountNotFound
  | AlreadyCancelled
  | CannotCancelConfirmed
  | P2002
  | P2003
  | P2025
  | AppliedDiscountNotFound

section \<open>Strings and rounding\<close>

text \<open>
  \<open>String.prototype.toLowerCase\<close> and \<open>toUpperCase\<close> on ASCII text:
  \<open>toLowerCase\<close> sends the letters \<open>A\<close> to \<open>Z\<close> (65 to 90) to \<open>a\<close> to \<open>z\<close>
  (97 to 122), \<open>toUpperCase\<close> does the converse, and every other character is kept.
\<close>

definition toLowerChar :: "char \<Rightarrow> char" where
  "toLowerChar c =
     (let n = (of_char c :: nat) in if 65 \<le> n \<and> n \<le> 90 then char_of (n + 32) else c)"

definition toUpperChar :: "char \<Rightarrow> char" where
  "toUpperChar c =
     (let n = (of_char c :: nat) in if 97 \<le> n \<and> n \<le> 122 then char_of (n - 32) else c)"

definition toLowerCase :: "string \<Rightarrow> string" where
  "toLowerCase s = map toLowerChar s"

definition toUpperCase :: "string \<Rightarrow> string" where
  "toUpperCase s = map toUpperChar s"

text \<open>
  \<open>new Prisma.Decimal(x.toFixed(2))\<close>: \<open>Number.prototype.toFixed\<close> takes the integer
  \<open>n\<close> for which \<open>n / 100\<close> is closest to \<open>x\<close>, the larger one of two equally close,
  after moving the sign of a negative \<open>x\<close> to the front.
\<close>

definition toFixed2 :: "rat \<Rightarrow> rat" where
  "toFixed2 x =
     (if x < 0 then - (of_int \<lfloor>(- x) * 100 + 1 / 2\<rfloor> / 100)
      else of_int \<lfloor>x * 100 + 1 / 2\<rfloor> / 100)"

section \<open>Discount calculator and cap enforcer (orders.service.ts)\<close>

definition calculateVoucherDiscount :: "voucher \<Rightarrow> rat \<Rightarrow> rat" where
  "calculateVoucherDiscount v sub =
     (if discountType v = PERCENTAGE then (sub * discountValue v) / 100
      else min (discountValue v) sub)"

definition enforceDiscountCap :: "rat \<Rightarrow> rat \<Rightarrow> rat \<Rightarrow> error + rat" where
  "enforceDiscountCap sub currentTotalDiscount newDiscountAmount =
     (let maxAllowedDiscount = sub * (1 / 2);
          proposedTotalDiscount = currentTotalDiscount + newDiscountAmount
      in if proposedTotalDiscount > maxAllowedDiscount then
           (let cappedNewDiscount = maxAllowedDiscount - currentTotalDiscount
            in if cappedNewDiscount \<le> 0 then Inl DiscountCapReached
               else Inr cappedNewDiscount)
         else Inr newDiscountAmount)"

text \<open>The two \<open>reduce\<close> calls of \<open>calculatePromotionDiscount\<close>, from the left, starting at 0.\<close>

definition eligibleTotal :: "orderItem list \<Rightarrow> rat" where
  "eligibleTotal its = foldl (\<lambda>s i. s + unitPrice i * of_int (quantity i)) 0 its"

definition itemDiscount :: "rat \<Rightarrow> orderItem \<Rightarrow> rat" where
  "itemDiscount dv i = min (dv * of_int (quantity i)) (unitPrice i * of_int (quantity i))"

definition calculatePromotionDiscount :: "promotion \<Rightarrow> orderItem list \<Rightarrow> rat" where
  "calculatePromotionDiscount p its =
     (if discountType p = PERCENTAGE then (eligibleTotal its * discountValue p) / 100
      else foldl (\<lambda>s i. s + itemDiscount (discountValue p) i) 0 its)"

section \<open>Eligibility matcher (promotions.service.ts)\<close>

definition checkEligibility :: "promotion \<Rightarrow> orderItem list \<Rightarrow> orderItem list" where
  "checkEligibility p orderItems =
     (let cats = map toLowerCase (eligibleCategories p);
          eligibleItemIds = eligibleItems p
      in filter (\<lambda>item.
           (let matchesCategory = (length cats > 0 \<and> toLowerCase (category item) \<in> set cats);
                matchesItem = (length eligibleItemIds > 0 \<and> productId item \<in> set eligibleItemIds)
            in matchesCategory \<or> matchesItem)) orderItems)"

section \<open>Usage counters (vouchers.service.ts, promotions.service.ts)\<close>

text \<open>
  A table is the list of its rows. \<open>update\<close> of the Prisma client changes the row its
  \<open>where\<close> selects and returns it, and fails with \<open>P2025\<close> when no row is selected:
  \<open>updateRow\<close> returns \<open>None\<close> there.
\<close>

fun updateRow :: "('r \<Rightarrow> bool) \<Rightarrow> ('r \<Rightarrow> 'r) \<Rightarrow> 'r list \<Rightarrow> ('r \<times> 'r list) option" where
  "updateRow P f [] = None"
| "updateRow P f (r # rs) =
     (if P r then Some (f r, f r # rs)
      else (case updateRow P f rs of
              None \<Rightarrow> None
            | Some (u, rs') \<Rightarrow> Some (u, r # rs')))"

text \<open>
  \<open>incrementUsage\<close> and \<open>decrementUsage\<close> are written twice in the source, word for word,
  once for each table; the model is written once, over the shared columns, and the
  services differ in the exception they raise.
\<close>

definition bumpUp :: "('a rule_scheme) \<Rightarrow> ('a rule_scheme)" where
  "bumpUp r = r\<lparr>currentUsage := currentUsage r + 1, version := version r + 1\<rparr>"

definition bumpDown :: "('a rule_scheme) \<Rightarrow> ('a rule_scheme)" where
  "bumpDown r = r\<lparr>currentUsage := currentUsage r - 1, version := version r + 1\<rparr>"

definition incrementUsageRule ::
  "error \<Rightarrow> string \<Rightarrow> int \<Rightarrow> ('a rule_scheme) list \<Rightarrow> error + (('a rule_scheme) \<times> ('a rule_scheme) list)" where
  "incrementUsageRule conflict i ver rs =
     (case updateRow (\<lambda>r. ruleId r = i \<and> version r = ver) bumpUp rs of
        None \<Rightarrow> Inl conflict
      | Some res \<Rightarrow> Inr res)"

definition decrementUsageRule ::
  "error \<Rightarrow> string \<Rightarrow> ('a rule_scheme) list \<Rightarrow> error + (('a rule_scheme) \<times> ('a rule_scheme) list)" where
  "decrementUsageRule notFound i rs =
     (case find (\<lambda>r. ruleId r = i) rs of
        None \<Rightarrow> Inl notFound
      | Some r \<Rightarrow>
          if currentUsage r = 0 then Inr (r, rs)
          else (case updateRow (\<lambda>r. ruleId r = i) bumpDown rs of
                  None \<Rightarrow> Inl P2025
                | Some res \<Rightarrow> Inr res))"

definition incrementUsage :: "string \<Rightarrow> int \<Rightarrow> voucher list \<Rightarrow> error + (voucher \<times> voucher list)" where
  "incrementUsage = incrementUsageRule VoucherVersionConflict"

definition decrementUsage :: "string \<Rightarrow> voucher list \<Rightarrow> error + (voucher \<times> voucher list)" where
  "decrementUsage = decrementUsageRule VoucherNotFound"

definition incrementUsageP :: "string \<Rightarrow> int \<Rightarrow> promotion list \<Rightarrow> error + (promotion \<times> promotion list)" where
  "incrementUsageP = incrementUsageRule PromotionVersionConflict"

definition decrementUsageP :: "string \<Rightarrow> promotion list \<Rightarrow> error + (promotion \<times> promotion list)" where
  "decrementUsageP = decrementUsageRule PromotionNotFound"

section \<open>The store\<close>

record db =
  orders :: "order list"
  discounts :: "orderDiscount list"
  vouchers :: "voucher list"
  promotions :: "promotion list"

text \<open>
  \<open>prisma.$transaction\<close> runs its callback and rolls back what the callback wrote through
  the transaction client \<open>tx\<close> when the callback throws. The callbacks of the order
  service write the tables \<open>Order\<close> and \<open>OrderDiscount\<close> through \<open>tx\<close>; the usage
  counters are written by the voucher and promotion services through their own client
  \<open>this.prisma\<close>, outside the transaction, so a rollback does not undo them. A callback
  returns its result or exception together with the store as it left it.
\<close>

definition transaction :: "(db \<Rightarrow> (error + 'a) \<times> db) \<Rightarrow> db \<Rightarrow> (error + 'a) \<times> db" where
  "transaction body d =
     (case body d of
        (Inl e, d') \<Rightarrow> (Inl e, d'\<lparr>orders := orders d, discounts := discounts d\<rparr>)
      | (Inr x, d') \<Rightarrow> (Inr x, d'))"


text \<open>The relation \<open>include: { discounts: true }\<close>: the discount rows of one order.\<close>

definition discountsOf :: "string \<Rightarrow> db \<Rightarrow> orderDiscount list" where
  "discountsOf oid d = filter (\<lambda>x. d_orderId x = oid) (discounts d)"

definition findDiscount :: "string \<Rightarrow> string \<Rightarrow> db \<Rightarrow> orderDiscount option" where
  "findDiscount oid c d = find (\<lambda>x. d_orderId x = oid \<and> discountCode x = c) (discounts d)"

section \<open>Rule lookup and validation\<close>

definition findOneRule :: "error \<Rightarrow> string \<Rightarrow> ('a rule_scheme) list \<Rightarrow> error + ('a rule_scheme)" where
  "findOneRule notFound c rs =
     (case find (\<lambda>r. code r = toUpperCase c \<and> deletedAt r = None) rs of
        None \<Rightarrow> Inl notFound
      | Some r \<Rightarrow> Inr r)"

definition findOneVoucher :: "string \<Rightarrow> voucher list \<Rightarrow> error + voucher" where
  "findOneVoucher = findOneRule VoucherNotFound"

definition findOnePromotion :: "string \<Rightarrow> promotion list \<Rightarrow> error + promotion" where
  "findOnePromotion = findOneRule PromotionNotFound"

definition validateVoucher :: "string \<Rightarrow> rat \<Rightarrow> int \<Rightarrow> voucher list \<Rightarrow> error + voucher" where
  "validateVoucher c orderValue now vs =
     (case findOneVoucher c vs of
        Inl e \<Rightarrow> Inl e
      | Inr v \<Rightarrow>
          if \<not> isActive v then Inl VoucherNotActive
          else if expirationDate v \<le> now then Inl VoucherExpired
          else if currentUsage v \<ge> usageLimit v then Inl VoucherUsageLimitReached
          else if (case minOrderValue v of None \<Rightarrow> False | Some m \<Rightarrow> orderValue < m)
            then Inl BelowMinOrderValue
          else Inr v)"

definition validatePromotion :: "string \<Rightarrow> int \<Rightarrow> promotion list \<Rightarrow> error + promotion" where
  "validatePromotion c now ps =
     (case findOnePromotion c ps of
        Inl e \<Rightarrow> Inl e
      | Inr p \<Rightarrow>
          if \<not> isActive p then Inl PromotionNotActive
          else if expirationDate p \<le> now then Inl PromotionExpired
          else if currentUsage p \<ge> usageLimit p then Inl PromotionUsageLimitReached
          else Inr p)"

section \<open>Order service (orders.service.ts)\<close>

text \<open>
  \<open>findOne(id, customerId)\<close> filters on the owner only when \<open>customerId\<close> is truthy, that
  is, not the empty string. It returns the order with its discount rows.
\<close>

definition findOneOrder :: "string \<Rightarrow> string \<Rightarrow> db \<Rightarrow> error + order" where
  "findOneOrder oid cust d =
     (case find (\<lambda>x. orderId x = oid \<and> (cust = [] \<or> customerId x = cust)) (orders d) of
        None \<Rightarrow> Inl OrderNotFound
      | Some ord \<Rightarrow> Inr ord)"

text \<open>
  \<open>create\<close>: the subtotal is the sum of the line totals of the request, rounded when it
  is stored. \<open>newId\<close> is the identifier the store generates for the row.
\<close>

definition createItem :: "orderItem \<Rightarrow> orderItem" where
  "createItem i =
     i\<lparr>unitPrice := toFixed2 (unitPrice i),
       lineTotal := toFixed2 (unitPrice i * of_int (quantity i))\<rparr>"

definition createOrder :: "string \<Rightarrow> string \<Rightarrow> orderItem list \<Rightarrow> db \<Rightarrow> order \<times> db" where
  "createOrder newId cust its d =
     (let sub = foldl (\<lambda>s i. s + unitPrice i * of_int (quantity i)) 0 its;
          ord = \<lparr>orderId = newId, customerId = cust, subtotal = toFixed2 sub, totalDiscount = 0,
               finalTotal = toFixed2 sub, status = PENDING, items = map createItem its\<rparr>
      in (ord, d\<lparr>orders := orders d @ [ord]\<rparr>))"

text \<open>
  The three statements of the transaction of \<open>applyVoucher\<close> and \<open>applyPromotion\<close>. The
  first two go through \<open>tx\<close>: the insert of the discount row, refused by the unique index
  when the order already has the code and by the foreign key when the order is not in the
  store, and the update of the totals, computed from the order as it was read before the
  transaction. \<open>order\<close>, the rule and \<open>discountAmount\<close>
  are the values the caller read and computed before; the store \<open>d\<close> is the store at
  the time of the transaction.
\<close>

definition writeDiscount ::
  "order \<Rightarrow> DiscountKind \<Rightarrow> string \<Rightarrow> rat \<Rightarrow> db \<Rightarrow> (error + order) \<times> db" where
  "writeDiscount ord kind c discountAmt d =
     (case findDiscount (orderId ord) c d of
        Some _ \<Rightarrow> (Inl P2002, d)
      | None \<Rightarrow>
          (case find (\<lambda>x. orderId x = orderId ord) (orders d) of
             None \<Rightarrow> (Inl P2003, d)
           | Some _ \<Rightarrow>
              (let d1 = d\<lparr>discounts := discounts d @
                          [\<lparr>d_orderId = orderId ord, d_discountType = kind, discountCode = c,
                            discountAmount = toFixed2 discountAmt\<rparr>]\<rparr>;
                   newTotalDiscount = totalDiscount ord + discountAmt;
                   newFinalTotal = subtotal ord - newTotalDiscount
               in case updateRow (\<lambda>x. orderId x = orderId ord)
                         (\<lambda>x. x\<lparr>totalDiscount := toFixed2 newTotalDiscount,
                                 finalTotal := toFixed2 newFinalTotal\<rparr>) (orders d1) of
                    None \<Rightarrow> (Inl P2025, d1)
                  | Some (updated, os) \<Rightarrow> (Inr updated, d1\<lparr>orders := os\<rparr>))))"

definition applyVoucherTx ::
  "order \<Rightarrow> voucher \<Rightarrow> rat \<Rightarrow> db \<Rightarrow> (error + order \<times> orderDiscount list) \<times> db" where
  "applyVoucherTx ord v discountAmt d =
     (case writeDiscount ord VOUCHER (code v) discountAmt d of
        (Inl e, d2) \<Rightarrow> (Inl e, d2)
      | (Inr updated, d2) \<Rightarrow>
          (case incrementUsage (ruleId v) (version v) (vouchers d2) of
             Inl e \<Rightarrow> (Inl e, d2)
           | Inr (_, vs) \<Rightarrow>
               (Inr (updated, discountsOf (orderId updated) d2), d2\<lparr>vouchers := vs\<rparr>)))"

definition applyPromotionTx ::
  "order \<Rightarrow> promotion \<Rightarrow> rat \<Rightarrow> db \<Rightarrow> (error + order \<times> orderDiscount list) \<times> db" where
  "applyPromotionTx ord p discountAmt d =
     (case writeDiscount ord PROMOTION (code p) discountAmt d of
        (Inl e, d2) \<Rightarrow> (Inl e, d2)
      | (Inr updated, d2) \<Rightarrow>
          (case incrementUsageP (ruleId p) (version p) (promotions d2) of
             Inl e \<Rightarrow> (Inl e, d2)
           | Inr (_, ps) \<Rightarrow>
               (Inr (updated, discountsOf (orderId updated) d2), d2\<lparr>promotions := ps\<rparr>)))"

definition applyVoucher ::
  "string \<Rightarrow> string \<Rightarrow> string \<Rightarrow> int \<Rightarrow> db \<Rightarrow> (error + order \<times> orderDiscount list) \<times> db" where
  "applyVoucher oid cust c now d =
     (case findOneOrder oid cust d of
        Inl e \<Rightarrow> (Inl e, d)
      | Inr ord \<Rightarrow>
          if status ord \<noteq> PENDING then (Inl NotPendingApply, d)
          else (case findDiscount (orderId ord) (toUpperCase c) d of
                  Some _ \<Rightarrow> (Inl AlreadyApplied, d)
                | None \<Rightarrow>
                   (case validateVoucher c (subtotal ord) now (vouchers d) of
                      Inl e \<Rightarrow> (Inl e, d)
                    | Inr v \<Rightarrow>
                       (case enforceDiscountCap (subtotal ord) (totalDiscount ord)
                               (calculateVoucherDiscount v (subtotal ord)) of
                          Inl e \<Rightarrow> (Inl e, d)
                        | Inr discountAmt \<Rightarrow> transaction (applyVoucherTx ord v discountAmt) d))))"

definition applyPromotion ::
  "string \<Rightarrow> string \<Rightarrow> string \<Rightarrow> int \<Rightarrow> db \<Rightarrow> (error + order \<times> orderDiscount list) \<times> db" where
  "applyPromotion oid cust c now d =
     (case findOneOrder oid cust d of
        Inl e \<Rightarrow> (Inl e, d)
      | Inr ord \<Rightarrow>
          if status ord \<noteq> PENDING then (Inl NotPendingApply, d)
          else (case findDiscount (orderId ord) (toUpperCase c) d of
                  Some _ \<Rightarrow> (Inl AlreadyApplied, d)
                | None \<Rightarrow>
                   (case validatePromotion c now (promotions d) of
                      Inl e \<Rightarrow> (Inl e, d)
                    | Inr p \<Rightarrow>
                       (let eligible = checkEligibility p (items ord)
                        in if length eligible = 0 then (Inl NoEligibleItems, d)
                           else (case enforceDiscountCap (subtotal ord) (totalDiscount ord)
                                        (calculatePromotionDiscount p eligible) of
                                   Inl e \<Rightarrow> (Inl e, d)
                                 | Inr discountAmt \<Rightarrow>
                                     transaction (applyPromotionTx ord p discountAmt) d)))))"







section \<open>Order controller (orders.controller.ts)\<close>

text \<open>The body of the response of \<open>applyDiscount\<close>, without its message text.\<close>

record applyDiscountResponse =
  r_orderId :: string
  r_discountType :: DiscountKind
  r_discountCode :: string
  r_discountAmount :: rat
  r_newTotal :: rat

definition respond ::
  "DiscountKind \<Rightarrow> string \<Rightarrow> order \<times> orderDiscount list \<Rightarrow> error + applyDiscountResponse" where
  "respond kind c res =
     (case find (\<lambda>x. discountCode x = toUpperCase c) (snd res) of
        None \<Rightarrow> Inl AppliedDiscountNotFound
      | Some applied \<Rightarrow>
          Inr \<lparr>r_orderId = orderId (fst res), r_discountType = kind,
               r_discountCode = toUpperCase c, r_discountAmount = discountAmount applied,
               r_newTotal = finalTotal (fst res)\<rparr>)"

definition applyDiscount ::
  "string \<Rightarrow> string \<Rightarrow> string \<Rightarrow> int \<Rightarrow> db \<Rightarrow> (error + applyDiscountResponse) \<times> db" where
  "applyDiscount userId oid c now d =
     (case applyVoucher oid userId c now d of
        (Inr res, d1) \<Rightarrow> (respond VOUCHER c res, d1)
      | (Inl voucherError, d1) \<Rightarrow>
          (case applyPromotion oid userId c now d1 of
             (Inr res, d2) \<Rightarrow> (respond PROMOTION c res, d2)
           | (Inl promotionError, d2) \<Rightarrow> (Inl voucherError, d2)))"

section \<open>Administration of the rules (vouchers.service.ts, promotions.service.ts)\<close>









section \<open>Example data\<close>

text \<open>
  The scenario of the specification: an order of 150.00 with one laptop, a fixed voucher
  of 50.00 and a promotion of 40 percent on electronics.
\<close>

definition exLaptop :: orderItem where
  "exLaptop = \<lparr>productId = ''PROD-001'', productName = ''Laptop'', category = ''Electronics'',
                unitPrice = 150, quantity = 1, lineTotal = 150\<rparr>"

definition exNovel :: orderItem where
  "exNovel = \<lparr>productId = ''PROD-002'', productName = ''Novel'', category = ''Books'',
               unitPrice = 20, quantity = 2, lineTotal = 40\<rparr>"

definition exOrder :: order where
  "exOrder = \<lparr>orderId = ''o1'', customerId = ''u1'', subtotal = 150, totalDiscount = 0,
               finalTotal = 150, status = PENDING, items = [exLaptop]\<rparr>"

definition exVoucher :: voucher where
  "exVoucher = \<lparr>ruleId = ''v1'', code = ''SAVE50'', discountType = FIXED, discountValue = 50,
                 expirationDate = 2000, usageLimit = 10, currentUsage = 0, isActive = True,
                 version = 0, deletedAt = None, minOrderValue = None\<rparr>"

definition exPromotion :: promotion where
  "exPromotion = \<lparr>ruleId = ''p1'', code = ''TECH40'', discountType = PERCENTAGE,
                   discountValue = 40, expirationDate = 2000, usageLimit = 10, currentUsage = 0,
                   isActive = True, version = 0, deletedAt = None,
                   eligibleCategories = [''ELECTRONICS''], eligibleItems = []\<rparr>"

definition exDb :: db where
  "exDb = \<lparr>orders = [exOrder], discounts = [], vouchers = [exVoucher],
            promotions = [exPromotion]\<rparr>"

text \<open>An order of 2.25 and a fixed voucher of 2.00: half the subtotal is 1.125.\<close>

definition oddOrder :: order where
  "oddOrder = \<lparr>orderId = ''o2'', customerId = ''u1'', subtotal = 9 / 4, totalDiscount = 0,
                finalTotal = 9 / 4, status = PENDING,
                items = [\<lparr>productId = ''PROD-003'', productName = ''Pen'', category = ''Office'',
                          unitPrice = 9 / 4, quantity = 1, lineTotal = 9 / 4\<rparr>]\<rparr>"

definition oddVoucher :: voucher where
  "oddVoucher = \<lparr>ruleId = ''v2'', code = ''TWO'', discountType = FIXED, discountValue = 2,
                  expirationDate = 2000, usageLimit = 10, currentUsage = 0, isActive = True,
                  version = 0, deletedAt = None, minOrderValue = None\<rparr>"

definition oddDb :: db where
  "oddDb = \<lparr>orders = [oddOrder], discounts = [], vouchers = [oddVoucher], promotions = []\<rparr>"

text \<open>The same order with a novel in place of the laptop, and a promotion with no criteria.\<close>

definition bookDb :: db where
  "bookDb = exDb\<lparr>orders := [exOrder\<lparr>items := [exNovel]\<rparr>]\<rparr>"

definition emptyPromotion :: promotion where
  "emptyPromotion = exPromotion\<lparr>eligibleCategories := []\<rparr>"

definition emptyDb :: db where
  "emptyDb = exDb\<lparr>promotions := [emptyPromotion]\<rparr>"

text \<open>
  The store after the voucher has been applied to the order, after the promotion has been
  applied as well, and the first store with the order cancelled.
\<close>

definition afterVoucher :: db where
  "afterVoucher =
     \<lparr>orders = [exOrder\<lparr>totalDiscount := 50, finalTotal := 100\<rparr>],
      discounts = [\<lparr>d_orderId = ''o1'', d_discountType = VOUCHER, discountCode = ''SAVE50'',
                    discountAmount = 50\<rparr>],
      vouchers = [exVoucher\<lparr>currentUsage := 1, version := 1\<rparr>],
      promotions = [exPromotion]\<rparr>"

definition afterBoth :: db where
  "afterBoth =
     \<lparr>orders = [exOrder\<lparr>totalDiscount := 75, finalTotal := 75\<rparr>],
      discounts = [\<lparr>d_orderId = ''o1'', d_discountType = VOUCHER, discountCode = ''SAVE50'',
                    discountAmount = 50\<rparr>,
                   \<lparr>d_orderId = ''o1'', d_discountType = PROMOTION, discountCode = ''TECH40'',
                    discountAmount = 25\<rparr>],
      vouchers = [exVoucher\<lparr>currentUsage := 1, version := 1\<rparr>],
      promotions = [exPromotion\<lparr>currentUsage := 1, version := 1\<rparr>]\<rparr>"






text \<open>The order of 2.25 and its store after the voucher of 2.00 has been applied.\<close>

definition oddOrderAfter :: order where
  "oddOrderAfter = oddOrder\<lparr>totalDiscount := 113 / 100, finalTotal := 113 / 100\<rparr>"

definition oddAfter :: db where
  "oddAfter =
     \<lparr>orders = [oddOrderAfter],
      discounts = [\<lparr>d_orderId = ''o2'', d_discountType = VOUCHER, discountCode = ''TWO'',
                    discountAmount = 113 / 100\<rparr>],
      vouchers = [oddVoucher\<lparr>currentUsage := 1, version := 1\<rparr>],
      promotions = []\<rparr>"

section \<open>Supporting lemmas\<close>


lemma updateRow_None: "(\<forall>r \<in> set rs. \<not> P r) \<Longrightarrow> updateRow P f rs = None"
  by (induction rs) simp_all

lemma updateRow_distinct:
  "distinct (map k rs) \<Longrightarrow> find (\<lambda>x. k x = i) rs = Some r \<Longrightarrow> (\<And>x. P x \<Longrightarrow> k x = i) \<Longrightarrow> P r \<Longrightarrow>
   updateRow P f rs = Some (f r, map (\<lambda>x. if k x = i then f x else x) rs)"
proof (induction rs)
  case Nil
  then show ?case by simp
next
  case (Cons a rs)
  show ?case
  proof (cases "k a = i")
    case True
    then have ar: "a = r" using Cons.prems(2) by simp
    have "\<forall>x \<in> set rs. k x \<noteq> i" using Cons.prems(1) True by (auto simp: image_iff)
    then have "map (\<lambda>x. if k x = i then f x else x) rs = rs"
      by (simp add: map_idI)
    then show ?thesis using True ar Cons.prems(4) by simp
  next
    case False
    then have np: "\<not> P a" using Cons.prems(3) by blast
    have "find (\<lambda>x. k x = i) rs = Some r" using Cons.prems(2) False by simp
    then have "updateRow P f rs = Some (f r, map (\<lambda>x. if k x = i then f x else x) rs)"
      using Cons.IH Cons.prems by simp
    then show ?thesis using False np by simp
  qed
qed

lemma find_unique_version:
  "distinct (map k rs) \<Longrightarrow> find (\<lambda>x. k x = i) rs = Some r \<Longrightarrow> x \<in> set rs \<Longrightarrow> k x = i \<Longrightarrow> x = r"
proof (induction rs)
  case Nil
  then show ?case by simp
next
  case (Cons a rs)
  then show ?case by (auto split: if_splits simp: find_Some_iff image_iff) 
qed

lemma incrementUsageRule_ok:
  assumes "distinct (map ruleId rs)" "find (\<lambda>x. ruleId x = i) rs = Some r" "version r = ver"
  shows "incrementUsageRule conflict i ver rs =
           Inr (bumpUp r, map (\<lambda>x. if ruleId x = i then bumpUp x else x) rs)"
proof -
  have "ruleId r = i" using assms(2) by (auto simp: find_Some_iff)
  then have "updateRow (\<lambda>x. ruleId x = i \<and> version x = ver) bumpUp rs =
      Some (bumpUp r, map (\<lambda>x. if ruleId x = i then bumpUp x else x) rs)"
    using updateRow_distinct [where k = ruleId and P = "\<lambda>x. ruleId x = i \<and> version x = ver", OF assms(1) assms(2)] assms(3)
    by simp
  then show ?thesis by (simp add: incrementUsageRule_def)
qed

lemma incrementUsageRule_conflict:
  assumes "distinct (map ruleId rs)" "find (\<lambda>x. ruleId x = i) rs = Some r" "version r \<noteq> ver"
  shows "incrementUsageRule conflict i ver rs = Inl conflict"
proof -
  have "\<forall>x \<in> set rs. \<not> (ruleId x = i \<and> version x = ver)"
    using find_unique_version [where k = ruleId, OF assms(1) assms(2)] assms(3) by blast
  then have "updateRow (\<lambda>x. ruleId x = i \<and> version x = ver) bumpUp rs = None"
    by (rule updateRow_None)
  then show ?thesis by (simp add: incrementUsageRule_def)
qed

lemma decrementUsageRule_zero:
  assumes "find (\<lambda>x. ruleId x = i) rs = Some r" "currentUsage r = 0"
  shows "decrementUsageRule nf i rs = Inr (r, rs)"
  using assms by (simp add: decrementUsageRule_def)

lemma decrementUsageRule_pos:
  assumes "distinct (map ruleId rs)" "find (\<lambda>x. ruleId x = i) rs = Some r" "currentUsage r \<noteq> 0"
  shows "decrementUsageRule nf i rs =
           Inr (bumpDown r, map (\<lambda>x. if ruleId x = i then bumpDown x else x) rs)"
proof -
  have "ruleId r = i" using assms(2) by (auto simp: find_Some_iff)
  then have "updateRow (\<lambda>x. ruleId x = i) bumpDown rs =
      Some (bumpDown r, map (\<lambda>x. if ruleId x = i then bumpDown x else x) rs)"
    using updateRow_distinct [where k = ruleId and P = "\<lambda>x. ruleId x = i", OF assms(1) assms(2)]
    by simp
  then show ?thesis using assms by (simp add: decrementUsageRule_def)
qed

lemma checkEligibility_filter:
  "checkEligibility p its =
     filter (\<lambda>i. toLowerCase (category i) \<in> toLowerCase ` set (eligibleCategories p) \<or>
                 productId i \<in> set (eligibleItems p)) its"
  unfolding checkEligibility_def Let_def by (rule filter_cong) auto

lemma applyPromotion_no_eligible:
  assumes "findOneOrder oid cust d = Inr ord" "status ord = PENDING"
    "findDiscount (orderId ord) (toUpperCase c) d = None"
    "validatePromotion c now (promotions d) = Inr p"
    "checkEligibility p (items ord) = []"
  shows "applyPromotion oid cust c now d = (Inl NoEligibleItems, d)"
  using assms by (simp add: applyPromotion_def Let_def)

lemma rollback_same:
  "vouchers d' = vouchers d \<Longrightarrow> promotions d' = promotions d \<Longrightarrow>
   d'\<lparr>orders := orders d, discounts := discounts d\<rparr> = (d::db)"
  by (cases d, cases d') simp

lemma transaction_Inl:
  "transaction body d = (Inl e, d') \<Longrightarrow>
   \<exists>d''. body d = (Inl e, d'') \<and> d' = d''\<lparr>orders := orders d, discounts := discounts d\<rparr>"
  by (auto simp: transaction_def split: prod.splits sum.splits)

lemma transaction_Inr:
  "transaction body d = (Inr x, d') \<Longrightarrow> body d = (Inr x, d')"
  by (auto simp: transaction_def split: prod.splits sum.splits)

lemma updateRow_Some:
  "updateRow P f rs = Some (u, rs') \<Longrightarrow> \<exists>r0 \<in> set rs. P r0 \<and> u = f r0"
  by (induction rs arbitrary: rs') (auto split: if_splits option.splits)


lemma writeDiscount_Inl:
  "writeDiscount ord kind c amt d = (Inl e, d') \<Longrightarrow>
   vouchers d' = vouchers d \<and> promotions d' = promotions d"
  by (auto simp: writeDiscount_def Let_def split: option.splits prod.splits)

lemma writeDiscount_Inr:
  "writeDiscount ord kind c amt d = (Inr u, d') \<Longrightarrow>
   findDiscount (orderId ord) c d = None \<and>
   discounts d' = discounts d @
     [\<lparr>d_orderId = orderId ord, d_discountType = kind, discountCode = c,
       discountAmount = toFixed2 amt\<rparr>] \<and>
   updateRow (\<lambda>x. orderId x = orderId ord)
     (\<lambda>x. x\<lparr>totalDiscount := toFixed2 (totalDiscount ord + amt),
             finalTotal := toFixed2 (subtotal ord - (totalDiscount ord + amt))\<rparr>) (orders d) =
     Some (u, orders d') \<and>
   vouchers d' = vouchers d \<and> promotions d' = promotions d"
  by (auto simp: writeDiscount_def Let_def split: option.splits prod.splits)

lemma applyVoucherTx_Inl:
  "applyVoucherTx ord v amt d = (Inl e, d') \<Longrightarrow>
   vouchers d' = vouchers d \<and> promotions d' = promotions d"
  by (auto simp: applyVoucherTx_def split: prod.splits sum.splits dest: writeDiscount_Inl writeDiscount_Inr)

lemma applyPromotionTx_Inl:
  "applyPromotionTx ord p amt d = (Inl e, d') \<Longrightarrow>
   vouchers d' = vouchers d \<and> promotions d' = promotions d"
  by (auto simp: applyPromotionTx_def split: prod.splits sum.splits dest: writeDiscount_Inl writeDiscount_Inr)

lemma applyVoucherTx_atomic:
  "transaction (applyVoucherTx ord v amt) d = (Inl e, d') \<Longrightarrow> d' = d"
  by (auto dest!: transaction_Inl applyVoucherTx_Inl simp: rollback_same)

lemma applyPromotionTx_atomic:
  "transaction (applyPromotionTx ord p amt) d = (Inl e, d') \<Longrightarrow> d' = d"
  by (auto dest!: transaction_Inl applyPromotionTx_Inl simp: rollback_same)

lemma applyVoucher_atomic:
  "applyVoucher oid cust c now d = (Inl e, d') \<Longrightarrow> d' = d"
  by (auto simp: applyVoucher_def split: sum.splits option.splits if_splits
      dest: applyVoucherTx_atomic)

lemma applyPromotion_atomic:
  "applyPromotion oid cust c now d = (Inl e, d') \<Longrightarrow> d' = d"
  by (auto simp: applyPromotion_def Let_def split: sum.splits option.splits if_splits
      dest: applyPromotionTx_atomic)

lemma applyVoucherTx_Inr:
  assumes "applyVoucherTx ord v amt d = (Inr (u, ds), d')"
  shows "findDiscount (orderId ord) (code v) d = None \<and>
     discounts d' = discounts d @
       [\<lparr>d_orderId = orderId ord, d_discountType = VOUCHER, discountCode = code v,
         discountAmount = toFixed2 amt\<rparr>] \<and>
     updateRow (\<lambda>x. orderId x = orderId ord)
       (\<lambda>x. x\<lparr>totalDiscount := toFixed2 (totalDiscount ord + amt),
               finalTotal := toFixed2 (subtotal ord - (totalDiscount ord + amt))\<rparr>) (orders d) =
       Some (u, orders d') \<and>
     (\<exists>r. incrementUsage (ruleId v) (version v) (vouchers d) = Inr (r, vouchers d')) \<and>
     promotions d' = promotions d \<and> ds = discountsOf (orderId u) d'"
  using assms
  by (auto simp: applyVoucherTx_def discountsOf_def split: prod.splits sum.splits
      dest!: writeDiscount_Inr)

lemma applyPromotionTx_Inr:
  assumes "applyPromotionTx ord p amt d = (Inr (u, ds), d')"
  shows "findDiscount (orderId ord) (code p) d = None \<and>
     discounts d' = discounts d @
       [\<lparr>d_orderId = orderId ord, d_discountType = PROMOTION, discountCode = code p,
         discountAmount = toFixed2 amt\<rparr>] \<and>
     updateRow (\<lambda>x. orderId x = orderId ord)
       (\<lambda>x. x\<lparr>totalDiscount := toFixed2 (totalDiscount ord + amt),
               finalTotal := toFixed2 (subtotal ord - (totalDiscount ord + amt))\<rparr>) (orders d) =
       Some (u, orders d') \<and>
     (\<exists>r. incrementUsageP (ruleId p) (version p) (promotions d) = Inr (r, promotions d')) \<and>
     vouchers d' = vouchers d \<and> ds = discountsOf (orderId u) d'"
  using assms
  by (auto simp: applyPromotionTx_def discountsOf_def split: prod.splits sum.splits
      dest!: writeDiscount_Inr)










lemma validateVoucher_code:
  "validateVoucher c sub now vs = Inr v \<Longrightarrow> code v = toUpperCase c"
  by (auto simp: validateVoucher_def findOneVoucher_def findOneRule_def find_Some_iff
      split: sum.splits if_splits option.splits)

lemma validatePromotion_code:
  "validatePromotion c now ps = Inr p \<Longrightarrow> code p = toUpperCase c"
  by (auto simp: validatePromotion_def findOnePromotion_def findOneRule_def find_Some_iff
      split: sum.splits if_splits option.splits)

lemma find_not_None: "x \<in> set xs \<Longrightarrow> P x \<Longrightarrow> \<exists>y. find P xs = Some y \<and> P y"
  by (cases "find P xs") (auto simp: find_None_iff find_Some_iff)

lemma applied_row_returned:
  assumes "discounts d' = discounts d @
       [\<lparr>d_orderId = oid, d_discountType = kind, discountCode = c, discountAmount = a\<rparr>]"
    and "updateRow (\<lambda>x. orderId x = oid) f (orders d) = Some (u, os)"
    and "\<And>x. orderId (f x) = orderId x"
  shows "\<exists>y \<in> set (discountsOf (orderId u) d'). discountCode y = c"
proof -
  obtain r0 where "r0 \<in> set (orders d)" "orderId r0 = oid" "u = f r0"
    using updateRow_Some [OF assms(2)] by blast
  then have "orderId u = oid" using assms(3) by simp
  then show ?thesis using assms(1) by (auto simp: discountsOf_def)
qed

lemma applyVoucher_returns_row:
  assumes "applyVoucher oid cust c now d = (Inr (u, ds), d')"
  shows "\<exists>y \<in> set ds. discountCode y = toUpperCase c"
proof -
  obtain ord v amt where v: "validateVoucher c (subtotal ord) now (vouchers d) = Inr v"
    and t: "transaction (applyVoucherTx ord v amt) d = (Inr (u, ds), d')"
    using assms
    by (auto simp: applyVoucher_def split: sum.splits option.splits if_splits)
  have tx: "applyVoucherTx ord v amt d = (Inr (u, ds), d')"
    using t by (rule transaction_Inr)
  note r = applyVoucherTx_Inr [OF tx]
  have a: "discounts d' = discounts d @
       [\<lparr>d_orderId = orderId ord, d_discountType = VOUCHER, discountCode = code v,
         discountAmount = toFixed2 amt\<rparr>]"
    using r by simp
  have b: "updateRow (\<lambda>x. orderId x = orderId ord)
       (\<lambda>x. x\<lparr>totalDiscount := toFixed2 (totalDiscount ord + amt),
               finalTotal := toFixed2 (subtotal ord - (totalDiscount ord + amt))\<rparr>) (orders d) =
       Some (u, orders d')"
    using r by simp
  have "\<exists>y \<in> set (discountsOf (orderId u) d'). discountCode y = code v"
    using applied_row_returned [OF a b] by simp
  then show ?thesis using r validateVoucher_code [OF v] by simp
qed

lemma applyPromotion_returns_row:
  assumes "applyPromotion oid cust c now d = (Inr (u, ds), d')"
  shows "\<exists>y \<in> set ds. discountCode y = toUpperCase c"
proof -
  obtain ord p amt where v: "validatePromotion c now (promotions d) = Inr p"
    and t: "transaction (applyPromotionTx ord p amt) d = (Inr (u, ds), d')"
    using assms
    by (auto simp: applyPromotion_def Let_def split: sum.splits option.splits if_splits)
  have tx: "applyPromotionTx ord p amt d = (Inr (u, ds), d')"
    using t by (rule transaction_Inr)
  note r = applyPromotionTx_Inr [OF tx]
  have a: "discounts d' = discounts d @
       [\<lparr>d_orderId = orderId ord, d_discountType = PROMOTION, discountCode = code p,
         discountAmount = toFixed2 amt\<rparr>]"
    using r by simp
  have b: "updateRow (\<lambda>x. orderId x = orderId ord)
       (\<lambda>x. x\<lparr>totalDiscount := toFixed2 (totalDiscount ord + amt),
               finalTotal := toFixed2 (subtotal ord - (totalDiscount ord + amt))\<rparr>) (orders d) =
       Some (u, orders d')"
    using r by simp
  have "\<exists>y \<in> set (discountsOf (orderId u) d'). discountCode y = code p"
    using applied_row_returned [OF a b] by simp
  then show ?thesis using r validatePromotion_code [OF v] by simp
qed

lemma respond_ok:
  assumes "\<exists>y \<in> set (snd res). discountCode y = toUpperCase c"
  shows "\<exists>r. respond kind c res = Inr r \<and> r_discountType r = kind \<and>
     r_orderId r = orderId (fst res) \<and> r_newTotal r = finalTotal (fst res)"
proof -
  obtain y where "y \<in> set (snd res)" "discountCode y = toUpperCase c" using assms by blast
  then obtain z where "find (\<lambda>x. discountCode x = toUpperCase c) (snd res) = Some z"
    using find_not_None [of y "snd res" "\<lambda>x. discountCode x = toUpperCase c"] by blast
  then show ?thesis by (simp add: respond_def)
qed

lemma applyDiscount_voucher:
  assumes "applyVoucher oid userId c now d = (Inr res, d1)"
  shows "\<exists>r. applyDiscount userId oid c now d = (Inr r, d1) \<and> r_discountType r = VOUCHER \<and>
      r_orderId r = orderId (fst res) \<and> r_newTotal r = finalTotal (fst res)"
proof -
  have "\<exists>y \<in> set (snd res). discountCode y = toUpperCase c"
    using applyVoucher_returns_row [of oid userId c now d "fst res" "snd res" d1] assms by simp
  from respond_ok [OF this, of VOUCHER] show ?thesis
    using assms by (auto simp: applyDiscount_def)
qed

lemma applyDiscount_promotion:
  assumes "applyVoucher oid userId c now d = (Inl ev, d1)"
    and "applyPromotion oid userId c now d = (Inr res, d2)"
  shows "\<exists>r. applyDiscount userId oid c now d = (Inr r, d2) \<and> r_discountType r = PROMOTION \<and>
      r_orderId r = orderId (fst res) \<and> r_newTotal r = finalTotal (fst res)"
proof -
  have d1: "d1 = d" using assms(1) by (rule applyVoucher_atomic)
  have "\<exists>y \<in> set (snd res). discountCode y = toUpperCase c"
    using applyPromotion_returns_row [of oid userId c now d "fst res" "snd res" d2] assms(2) by simp
  from respond_ok [OF this, of PROMOTION] show ?thesis
    using assms d1 by (auto simp: applyDiscount_def)
qed

lemma applyDiscount_both_fail:
  assumes "applyVoucher oid userId c now d = (Inl ev, d1)"
    and "applyPromotion oid userId c now d = (Inl ep, d2)"
  shows "applyDiscount userId oid c now d = (Inl ev, d)"
proof -
  have d1: "d1 = d" using assms(1) by (rule applyVoucher_atomic)
  have d2: "d2 = d" using assms(2) by (rule applyPromotion_atomic)
  show ?thesis using assms d1 d2 by (simp add: applyDiscount_def)
qed


lemma applyDiscount_promotion_only_if:
  assumes "applyDiscount userId oid c now d = (Inr r, d')" "r_discountType r = PROMOTION"
  shows "(\<exists>ev. applyVoucher oid userId c now d = (Inl ev, d)) \<and>
         (\<exists>res. applyPromotion oid userId c now d = (Inr res, d'))"
proof (cases "applyVoucher oid userId c now d")
  case (Pair rv d1)
  show ?thesis
  proof (cases rv)
    case (Inr res)
    then show ?thesis using applyDiscount_voucher [of oid userId c now d res d1] Pair assms by auto
  next
    case (Inl ev)
    then have d1: "d1 = d" using Pair applyVoucher_atomic by blast
    show ?thesis
    proof (cases "applyPromotion oid userId c now d")
      case p: (Pair rp d2)
      show ?thesis
      proof (cases rp)
        case (Inr res)
        then show ?thesis
          using applyDiscount_promotion [of oid userId c now d ev d1 res d2] Pair Inl p d1 assms by auto
      next
        case il: (Inl ep)
        then show ?thesis
          using applyDiscount_both_fail [of oid userId c now d ev d1 ep d2] Pair Inl p assms by auto
      qed
    qed
  qed
qed









section \<open>The cap enforcer\<close>



section \<open>The discount calculator\<close>




section \<open>The usage counters\<close>

text \<open>
  Claim C5. On a table whose \<open>id\<close> column is a key, for the stored rule \<open>r\<close> with the
  given id: \<open>incrementUsage\<close> succeeds if and only if the version of \<open>r\<close> is the
  expected one; on success it adds one to \<open>currentUsage\<close> and one to \<open>version\<close> of that
  row and of no other, otherwise it fails with the version conflict. \<open>decrementUsage\<close>
  returns \<open>r\<close> and leaves the table as it is when \<open>currentUsage r = 0\<close>; otherwise it
  takes one from \<open>currentUsage\<close> and adds one to \<open>version\<close>, whatever the version is. The
  same holds of the promotion service.
\<close>

theorem usage_counter_contract:
  assumes "distinct (map ruleId vs)" and "find (\<lambda>x. ruleId x = i) vs = Some r"
    and "distinct (map ruleId ps)" and "find (\<lambda>x. ruleId x = j) ps = Some q"
  shows
    "(version r = ver \<longrightarrow>
        incrementUsage i ver vs =
          Inr (r\<lparr>currentUsage := currentUsage r + 1, version := version r + 1\<rparr>,
               map (\<lambda>x. if ruleId x = i
                         then x\<lparr>currentUsage := currentUsage x + 1, version := version x + 1\<rparr>
                         else x) vs)) \<and>
     (version r \<noteq> ver \<longrightarrow> incrementUsage i ver vs = Inl VoucherVersionConflict) \<and>
     (currentUsage r = 0 \<longrightarrow> decrementUsage i vs = Inr (r, vs)) \<and>
     (currentUsage r \<noteq> 0 \<longrightarrow>
        decrementUsage i vs =
          Inr (r\<lparr>currentUsage := currentUsage r - 1, version := version r + 1\<rparr>,
               map (\<lambda>x. if ruleId x = i
                         then x\<lparr>currentUsage := currentUsage x - 1, version := version x + 1\<rparr>
                         else x) vs)) \<and>
     (version q = ver \<longrightarrow>
        incrementUsageP j ver ps =
          Inr (q\<lparr>currentUsage := currentUsage q + 1, version := version q + 1\<rparr>,
               map (\<lambda>x. if ruleId x = j
                         then x\<lparr>currentUsage := currentUsage x + 1, version := version x + 1\<rparr>
                         else x) ps)) \<and>
     (version q \<noteq> ver \<longrightarrow> incrementUsageP j ver ps = Inl PromotionVersionConflict) \<and>
     (currentUsage q = 0 \<longrightarrow> decrementUsageP j ps = Inr (q, ps)) \<and>
     (currentUsage q \<noteq> 0 \<longrightarrow>
        decrementUsageP j ps =
          Inr (q\<lparr>currentUsage := currentUsage q - 1, version := version q + 1\<rparr>,
               map (\<lambda>x. if ruleId x = j
                         then x\<lparr>currentUsage := currentUsage x - 1, version := version x + 1\<rparr>
                         else x) ps))"
proof -
  have a: "version r = ver \<longrightarrow>
      incrementUsage i ver vs = Inr (bumpUp r, map (\<lambda>x. if ruleId x = i then bumpUp x else x) vs)"
    using incrementUsageRule_ok [OF assms(1) assms(2)] by (simp add: incrementUsage_def)
  have b: "version r \<noteq> ver \<longrightarrow> incrementUsage i ver vs = Inl VoucherVersionConflict"
    using incrementUsageRule_conflict [OF assms(1) assms(2)] by (simp add: incrementUsage_def)
  have c: "currentUsage r = 0 \<longrightarrow> decrementUsage i vs = Inr (r, vs)"
    using decrementUsageRule_zero [OF assms(2)] by (simp add: decrementUsage_def)
  have d: "currentUsage r \<noteq> 0 \<longrightarrow>
      decrementUsage i vs = Inr (bumpDown r, map (\<lambda>x. if ruleId x = i then bumpDown x else x) vs)"
    using decrementUsageRule_pos [OF assms(1) assms(2)] by (simp add: decrementUsage_def)
  have a': "version q = ver \<longrightarrow>
      incrementUsageP j ver ps = Inr (bumpUp q, map (\<lambda>x. if ruleId x = j then bumpUp x else x) ps)"
    using incrementUsageRule_ok [OF assms(3) assms(4)] by (simp add: incrementUsageP_def)
  have b': "version q \<noteq> ver \<longrightarrow> incrementUsageP j ver ps = Inl PromotionVersionConflict"
    using incrementUsageRule_conflict [OF assms(3) assms(4)] by (simp add: incrementUsageP_def)
  have e: "currentUsage q = 0 \<longrightarrow> decrementUsageP j ps = Inr (q, ps)"
    using decrementUsageRule_zero [OF assms(4)] by (simp add: decrementUsageP_def)
  have f: "currentUsage q \<noteq> 0 \<longrightarrow>
      decrementUsageP j ps = Inr (bumpDown q, map (\<lambda>x. if ruleId x = j then bumpDown x else x) ps)"
    using decrementUsageRule_pos [OF assms(3) assms(4)] by (simp add: decrementUsageP_def)
  have up: "\<And>x::voucher. bumpUp x = x\<lparr>currentUsage := currentUsage x + 1, version := version x + 1\<rparr>"
    by (simp add: bumpUp_def)
  have dn: "\<And>x::voucher. bumpDown x = x\<lparr>currentUsage := currentUsage x - 1, version := version x + 1\<rparr>"
    by (simp add: bumpDown_def)
  have upp: "\<And>x::promotion. bumpUp x = x\<lparr>currentUsage := currentUsage x + 1, version := version x + 1\<rparr>"
    by (simp add: bumpUp_def)
  have dnp: "\<And>x::promotion. bumpDown x = x\<lparr>currentUsage := currentUsage x - 1, version := version x + 1\<rparr>"
    by (simp add: bumpDown_def)
  show ?thesis
    using a b c d a' b' e f unfolding up dn upp dnp by blast
qed

text \<open>
  The voucher and the promotion of the example, first unused at version 0 (expected
  versions 0 and 7), then with three usages at version 5.
\<close>

theorem usage_counter_contract_witness:
  "incrementUsage ''v1'' 0 [exVoucher] = Inr (exVoucher\<lparr>currentUsage := 1, version := 1\<rparr>,
      [exVoucher\<lparr>currentUsage := 1, version := 1\<rparr>]) \<and>
   incrementUsage ''v1'' 7 [exVoucher] = Inl VoucherVersionConflict \<and>
   decrementUsage ''v1'' [exVoucher] = Inr (exVoucher, [exVoucher]) \<and>
   decrementUsage ''v1'' [exVoucher\<lparr>currentUsage := 3, version := 5\<rparr>] =
     Inr (exVoucher\<lparr>currentUsage := 2, version := 6\<rparr>, [exVoucher\<lparr>currentUsage := 2, version := 6\<rparr>]) \<and>
   incrementUsageP ''p1'' 0 [exPromotion] = Inr (exPromotion\<lparr>currentUsage := 1, version := 1\<rparr>,
      [exPromotion\<lparr>currentUsage := 1, version := 1\<rparr>]) \<and>
   incrementUsageP ''p1'' 7 [exPromotion] = Inl PromotionVersionConflict \<and>
   decrementUsageP ''p1'' [exPromotion] = Inr (exPromotion, [exPromotion]) \<and>
   decrementUsageP ''p1'' [exPromotion\<lparr>currentUsage := 3, version := 5\<rparr>] =
     Inr (exPromotion\<lparr>currentUsage := 2, version := 6\<rparr>, [exPromotion\<lparr>currentUsage := 2, version := 6\<rparr>])"
proof -
  have v0: "distinct (map ruleId [exVoucher]) \<and> find (\<lambda>x. ruleId x = ''v1'') [exVoucher] = Some exVoucher"
    by (simp add: exVoucher_def)
  have v3: "distinct (map ruleId [exVoucher\<lparr>currentUsage := 3, version := 5\<rparr>]) \<and>
      find (\<lambda>x. ruleId x = ''v1'') [exVoucher\<lparr>currentUsage := 3, version := 5\<rparr>] =
        Some (exVoucher\<lparr>currentUsage := 3, version := 5\<rparr>)"
    by (simp add: exVoucher_def)
  have p0: "distinct (map ruleId [exPromotion]) \<and> find (\<lambda>x. ruleId x = ''p1'') [exPromotion] = Some exPromotion"
    by (simp add: exPromotion_def)
  have p3: "distinct (map ruleId [exPromotion\<lparr>currentUsage := 3, version := 5\<rparr>]) \<and>
      find (\<lambda>x. ruleId x = ''p1'') [exPromotion\<lparr>currentUsage := 3, version := 5\<rparr>] =
        Some (exPromotion\<lparr>currentUsage := 3, version := 5\<rparr>)"
    by (simp add: exPromotion_def)
  show ?thesis
    using usage_counter_contract [OF conjunct1 [OF v0] conjunct2 [OF v0] conjunct1 [OF p0] conjunct2 [OF p0], of 0]
      usage_counter_contract [OF conjunct1 [OF v0] conjunct2 [OF v0] conjunct1 [OF p0] conjunct2 [OF p0], of 7]
      usage_counter_contract [OF conjunct1 [OF v3] conjunct2 [OF v3] conjunct1 [OF p3] conjunct2 [OF p3], of 5]
    by (simp add: exVoucher_def exPromotion_def)
qed

section \<open>The eligibility matcher\<close>

text \<open>
  Claim C6. For every promotion and every item list, \<open>checkEligibility\<close> returns exactly
  the items whose category, in lower case, is among the eligible categories in lower case,
  or whose product id is among the eligible items: an inclusive or. When no item of the
  order is eligible, \<open>applyPromotion\<close>, having found the pending order without the code
  and validated the promotion, fails with \<open>NoEligibleItems\<close> and writes nothing.
\<close>

theorem checkEligibility_inclusive_or:
  "checkEligibility p its =
     filter (\<lambda>i. toLowerCase (category i) \<in> toLowerCase ` set (eligibleCategories p) \<or>
                 productId i \<in> set (eligibleItems p)) its \<and>
   (findOneOrder oid cust d = Inr ord \<longrightarrow> status ord = PENDING \<longrightarrow>
    findDiscount (orderId ord) (toUpperCase c) d = None \<longrightarrow>
    validatePromotion c now (promotions d) = Inr p \<longrightarrow>
    checkEligibility p (items ord) = [] \<longrightarrow>
    applyPromotion oid cust c now d = (Inl NoEligibleItems, d))"
  using checkEligibility_filter applyPromotion_no_eligible by blast

text \<open>
  The promotion on \<open>ELECTRONICS\<close> keeps the laptop of category \<open>Electronics\<close> and drops
  the novel; with the novel's product id among the eligible items it keeps both; applied to
  the order of novels it fails.
\<close>

theorem checkEligibility_inclusive_or_witness:
  "checkEligibility exPromotion [exLaptop, exNovel] = [exLaptop] \<and>
   checkEligibility (exPromotion\<lparr>eligibleItems := [''PROD-002'']\<rparr>) [exLaptop, exNovel] =
     [exLaptop, exNovel] \<and>
   applyPromotion ''o1'' ''u1'' ''tech40'' 1000 bookDb = (Inl NoEligibleItems, bookDb)"
proof -
  have e1: "filter (\<lambda>i. toLowerCase (category i) \<in> toLowerCase ` set (eligibleCategories exPromotion) \<or>
                 productId i \<in> set (eligibleItems exPromotion)) [exLaptop, exNovel] = [exLaptop]"
    by code_simp
  have e2: "filter (\<lambda>i. toLowerCase (category i) \<in>
        toLowerCase ` set (eligibleCategories (exPromotion\<lparr>eligibleItems := [''PROD-002'']\<rparr>)) \<or>
        productId i \<in> set (eligibleItems (exPromotion\<lparr>eligibleItems := [''PROD-002'']\<rparr>)))
      [exLaptop, exNovel] = [exLaptop, exNovel]"
    by code_simp
  have h1: "findOneOrder ''o1'' ''u1'' bookDb = Inr (exOrder\<lparr>items := [exNovel]\<rparr>)"
    by code_simp
  have h2: "status (exOrder\<lparr>items := [exNovel]\<rparr>) = PENDING"
    by code_simp
  have h3: "findDiscount (orderId (exOrder\<lparr>items := [exNovel]\<rparr>)) (toUpperCase ''tech40'') bookDb = None"
    by code_simp
  have h4: "validatePromotion ''tech40'' 1000 (promotions bookDb) = Inr exPromotion"
    by code_simp
  have h5: "checkEligibility exPromotion (items (exOrder\<lparr>items := [exNovel]\<rparr>)) = []"
    by code_simp
  note t = checkEligibility_inclusive_or [of exPromotion "[exLaptop, exNovel]" "''o1''" "''u1''" bookDb
        "exOrder\<lparr>items := [exNovel]\<rparr>" "''tech40''" 1000]
  note t' = checkEligibility_inclusive_or [of "exPromotion\<lparr>eligibleItems := [''PROD-002'']\<rparr>"
        "[exLaptop, exNovel]"]
  have a: "checkEligibility exPromotion [exLaptop, exNovel] = [exLaptop]"
    using conjunct1 [OF t] e1 by (simp only:)
  have b: "checkEligibility (exPromotion\<lparr>eligibleItems := [''PROD-002'']\<rparr>) [exLaptop, exNovel] =
     [exLaptop, exNovel]"
    using conjunct1 [OF t'] e2 by (simp only:)
  have c: "applyPromotion ''o1'' ''u1'' ''tech40'' 1000 bookDb = (Inl NoEligibleItems, bookDb)"
    by (rule conjunct2 [OF t, rule_format, OF h1 h2 h3 h4 h5])
  show ?thesis using a b c by (intro conjI)
qed

text \<open>
  Claim C10. A promotion whose \<open>eligibleCategories\<close> and \<open>eligibleItems\<close> are both empty
  matches no item of any item list; applying its code never succeeds and writes nothing,
  and once the order and the promotion have passed their checks the failure is
  \<open>NoEligibleItems\<close>.
\<close>

theorem empty_criteria_match_nothing:
  assumes "eligibleCategories p = []" and "eligibleItems p = []"
  shows "checkEligibility p its = [] \<and>
    (findOnePromotion c (promotions d) = Inr p \<longrightarrow>
       (\<exists>e. applyPromotion oid cust c now d = (Inl e, d))) \<and>
    (findOneOrder oid cust d = Inr ord \<longrightarrow> status ord = PENDING \<longrightarrow>
     findDiscount (orderId ord) (toUpperCase c) d = None \<longrightarrow>
     validatePromotion c now (promotions d) = Inr p \<longrightarrow>
     applyPromotion oid cust c now d = (Inl NoEligibleItems, d))"
proof -
  have e: "\<And>xs. checkEligibility p xs = []"
    using assms by (simp add: checkEligibility_def Let_def)
  have f: "findOnePromotion c (promotions d) = Inr p \<longrightarrow>
       (\<exists>e. applyPromotion oid cust c now d = (Inl e, d))"
    using e
    by (auto simp: applyPromotion_def validatePromotion_def Let_def
        split: sum.splits option.splits if_splits)
  show ?thesis using e f applyPromotion_no_eligible by blast
qed

theorem empty_criteria_match_nothing_witness:
  "checkEligibility emptyPromotion [exLaptop, exNovel] = [] \<and>
   applyPromotion ''o1'' ''u1'' ''tech40'' 1000 emptyDb = (Inl NoEligibleItems, emptyDb)"
proof -
  have a1: "eligibleCategories emptyPromotion = []" by code_simp
  have a2: "eligibleItems emptyPromotion = []" by code_simp
  have h1: "findOneOrder ''o1'' ''u1'' emptyDb = Inr exOrder" by code_simp
  have h2: "status exOrder = PENDING" by code_simp
  have h3: "findDiscount (orderId exOrder) (toUpperCase ''tech40'') emptyDb = None" by code_simp
  have h4: "validatePromotion ''tech40'' 1000 (promotions emptyDb) = Inr emptyPromotion" by code_simp
  note t = empty_criteria_match_nothing [OF a1 a2, of "[exLaptop, exNovel]" "''tech40''" emptyDb
      "''o1''" "''u1''" 1000 exOrder]
  have a: "checkEligibility emptyPromotion [exLaptop, exNovel] = []"
    by (rule conjunct1 [OF t])
  have c: "applyPromotion ''o1'' ''u1'' ''tech40'' 1000 emptyDb = (Inl NoEligibleItems, emptyDb)"
    by (rule conjunct2 [OF conjunct2 [OF t], rule_format, OF h1 h2 h3 h4])
  show ?thesis using a c by (intro conjI)
qed

section \<open>Atomicity of the discount writes\<close>



section \<open>Voucher first, then promotion\<close>

text \<open>
  Claim C7. \<open>applyDiscount\<close> tries the code as a voucher first. When the voucher attempt
  succeeds its result is returned; the result of the promotion attempt is returned if and
  only if the voucher attempt failed and the promotion attempt succeeded; and when both
  fail, the error of the voucher attempt is the one raised, with the store unchanged.
\<close>

theorem applyDiscount_voucher_first:
  "(applyVoucher oid userId c now d = (Inr res, d1) \<longrightarrow>
      (\<exists>r. applyDiscount userId oid c now d = (Inr r, d1) \<and> r_discountType r = VOUCHER \<and>
           r_orderId r = orderId (fst res) \<and> r_newTotal r = finalTotal (fst res))) \<and>
   (applyVoucher oid userId c now d = (Inl ev, d1) \<longrightarrow>
    applyPromotion oid userId c now d = (Inr res, d2) \<longrightarrow>
      (\<exists>r. applyDiscount userId oid c now d = (Inr r, d2) \<and> r_discountType r = PROMOTION \<and>
           r_orderId r = orderId (fst res) \<and> r_newTotal r = finalTotal (fst res))) \<and>
   (applyDiscount userId oid c now d = (Inr r, d') \<longrightarrow> r_discountType r = PROMOTION \<longrightarrow>
      (\<exists>e. applyVoucher oid userId c now d = (Inl e, d)) \<and>
      (\<exists>x. applyPromotion oid userId c now d = (Inr x, d'))) \<and>
   (applyVoucher oid userId c now d = (Inl ev, d1) \<longrightarrow>
    applyPromotion oid userId c now d = (Inl ep, d2) \<longrightarrow>
      applyDiscount userId oid c now d = (Inl ev, d))"
proof (intro conjI impI)
  assume "applyVoucher oid userId c now d = (Inr res, d1)"
  then show "\<exists>r. applyDiscount userId oid c now d = (Inr r, d1) \<and> r_discountType r = VOUCHER \<and>
      r_orderId r = orderId (fst res) \<and> r_newTotal r = finalTotal (fst res)"
    by (rule applyDiscount_voucher)
next
  assume "applyVoucher oid userId c now d = (Inl ev, d1)"
    and "applyPromotion oid userId c now d = (Inr res, d2)"
  then show "\<exists>r. applyDiscount userId oid c now d = (Inr r, d2) \<and> r_discountType r = PROMOTION \<and>
      r_orderId r = orderId (fst res) \<and> r_newTotal r = finalTotal (fst res)"
    by (rule applyDiscount_promotion)
next
  assume a: "applyDiscount userId oid c now d = (Inr r, d')" "r_discountType r = PROMOTION"
  show "\<exists>e. applyVoucher oid userId c now d = (Inl e, d)"
    using applyDiscount_promotion_only_if [OF a] by (rule conjunct1)
  show "\<exists>x. applyPromotion oid userId c now d = (Inr x, d')"
    using applyDiscount_promotion_only_if [OF a] by (rule conjunct2)
next
  assume "applyVoucher oid userId c now d = (Inl ev, d1)"
    and "applyPromotion oid userId c now d = (Inl ep, d2)"
  then show "applyDiscount userId oid c now d = (Inl ev, d)"
    by (rule applyDiscount_both_fail)
qed

text \<open>
  \<open>save50\<close> is applied as the voucher; \<open>tech40\<close> is no voucher and is applied as the
  promotion; on the order of novels \<open>tech40\<close> fails as a voucher (not found) and as a
  promotion (no eligible items), and the error raised is the voucher's.
\<close>

theorem applyDiscount_voucher_first_witness:
  "(\<exists>r. applyDiscount ''u1'' ''o1'' ''save50'' 1000 exDb = (Inr r, afterVoucher) \<and>
        r_discountType r = VOUCHER \<and> r_orderId r = ''o1'' \<and> r_newTotal r = 100) \<and>
   (\<exists>r. applyDiscount ''u1'' ''o1'' ''tech40'' 1000 afterVoucher = (Inr r, afterBoth) \<and>
        r_discountType r = PROMOTION \<and> r_orderId r = ''o1'' \<and> r_newTotal r = 75) \<and>
   (\<exists>e. applyVoucher ''o1'' ''u1'' ''tech40'' 1000 afterVoucher = (Inl e, afterVoucher)) \<and>
   applyDiscount ''u1'' ''o1'' ''tech40'' 1000 bookDb = (Inl VoucherNotFound, bookDb)"
proof -
  have v: "applyVoucher ''o1'' ''u1'' ''save50'' 1000 exDb =
      (Inr (exOrder\<lparr>totalDiscount := 50, finalTotal := 100\<rparr>, discounts afterVoucher), afterVoucher)"
    by code_simp
  have pv: "applyVoucher ''o1'' ''u1'' ''tech40'' 1000 afterVoucher = (Inl VoucherNotFound, afterVoucher)"
    by code_simp
  have pp: "applyPromotion ''o1'' ''u1'' ''tech40'' 1000 afterVoucher =
      (Inr (exOrder\<lparr>totalDiscount := 75, finalTotal := 75\<rparr>, discounts afterBoth), afterBoth)"
    by code_simp
  have bv: "applyVoucher ''o1'' ''u1'' ''tech40'' 1000 bookDb = (Inl VoucherNotFound, bookDb)"
    by code_simp
  have bp: "applyPromotion ''o1'' ''u1'' ''tech40'' 1000 bookDb = (Inl NoEligibleItems, bookDb)"
    by code_simp
  have a: "\<exists>r. applyDiscount ''u1'' ''o1'' ''save50'' 1000 exDb = (Inr r, afterVoucher) \<and>
        r_discountType r = VOUCHER \<and> r_orderId r = ''o1'' \<and> r_newTotal r = 100"
    using conjunct1 [OF applyDiscount_voucher_first, rule_format, OF v]
    by (simp add: exOrder_def)
  have b: "\<exists>r. applyDiscount ''u1'' ''o1'' ''tech40'' 1000 afterVoucher = (Inr r, afterBoth) \<and>
        r_discountType r = PROMOTION \<and> r_orderId r = ''o1'' \<and> r_newTotal r = 75"
    using conjunct1 [OF conjunct2 [OF applyDiscount_voucher_first], rule_format, OF pv pp]
    by (simp add: exOrder_def)
  have c: "applyDiscount ''u1'' ''o1'' ''tech40'' 1000 bookDb = (Inl VoucherNotFound, bookDb)"
    by (rule conjunct2 [OF conjunct2 [OF conjunct2 [OF applyDiscount_voucher_first]], rule_format, OF bv bp])
  obtain r where r: "applyDiscount ''u1'' ''o1'' ''tech40'' 1000 afterVoucher = (Inr r, afterBoth)"
      "r_discountType r = PROMOTION"
    using b by blast
  have b': "\<exists>e. applyVoucher ''o1'' ''u1'' ''tech40'' 1000 afterVoucher = (Inl e, afterVoucher)"
    by (rule conjunct1 [OF conjunct1 [OF conjunct2 [OF conjunct2 [OF applyDiscount_voucher_first]],
          rule_format, OF r]])
  show ?thesis using a b b' c by (intro conjI)
qed

section \<open>The version of a rule\<close>




section \<open>The invariant of the totals\<close>

text \<open>
  Claim C3 at one order. The order of 2.25, as \<open>create\<close> stores it, receives the fixed
  voucher of 2.00. The cap enforcer returns 1.125, half the subtotal; the discount row and
  \<open>totalDiscount\<close> are stored as 1.13 and \<open>finalTotal\<close>, computed as 2.25 - 1.125, as 1.13
  too. The sum of the discount rows is \<open>totalDiscount\<close>, but \<open>totalDiscount\<close> is above
  half the subtotal and \<open>finalTotal\<close> is not \<open>subtotal - totalDiscount\<close>, which is 1.12.
  Every number of this run is a binary fraction, so that the rationals of the model are
  the numbers the program computes with.
\<close>

theorem rounding_breaks_cap:
  "createOrder ''o2'' ''u1'' (items oddOrder) (oddDb\<lparr>orders := []\<rparr>) = (oddOrder, oddDb) \<and>
   applyVoucher ''o2'' ''u1'' ''two'' 1000 oddDb =
     (Inr (oddOrderAfter, discounts oddAfter), oddAfter) \<and>
   totalDiscount oddOrderAfter = sum_list (map discountAmount (discountsOf ''o2'' oddAfter)) \<and>
   totalDiscount oddOrderAfter > (1 / 2) * subtotal oddOrderAfter \<and>
   finalTotal oddOrderAfter \<noteq> subtotal oddOrderAfter - totalDiscount oddOrderAfter"
  by code_simp

end
